theory Spec2Isabelle
  imports Complex_Main "HOL-Library.Word" "HOL-Library.Char_ord" "HOL-Library.List_Lexorder"
begin

section \<open>JavaScript numbers\<close>

text \<open>
  A JavaScript number is modelled as an exact real, the two infinities, or NaN.
  Finite arithmetic is exact: rounding to 53 bits and overflow to an infinity are not
  modelled, and the two zeros are not told apart (a zero divisor counts as +0, which is
  what a difference of equal values or the square root of one is).  On integers below
  \<open>2^53\<close>, such as the ranks, peaks, years and sample points used below, sums and
  products of doubles are exact, so the model and the program agree there.
\<close>

datatype jsnum = Fin real | PosInf | NegInf | NaN

fun isNaN :: "jsnum \<Rightarrow> bool" where
  "isNaN NaN = True"
| "isNaN _ = False"

fun jneg :: "jsnum \<Rightarrow> jsnum" where
  "jneg (Fin a) = Fin (- a)"
| "jneg PosInf = NegInf"
| "jneg NegInf = PosInf"
| "jneg NaN = NaN"

text \<open>\<open>a + b\<close>\<close>

fun jadd :: "jsnum \<Rightarrow> jsnum \<Rightarrow> jsnum" where
  "jadd (Fin a) (Fin b) = Fin (a + b)"
| "jadd NaN _ = NaN"
| "jadd _ NaN = NaN"
| "jadd PosInf NegInf = NaN"
| "jadd NegInf PosInf = NaN"
| "jadd PosInf _ = PosInf"
| "jadd NegInf _ = NegInf"
| "jadd _ PosInf = PosInf"
| "jadd _ NegInf = NegInf"

text \<open>\<open>a - b\<close>\<close>

definition jsub :: "jsnum \<Rightarrow> jsnum \<Rightarrow> jsnum" where
  "jsub a b = jadd a (jneg b)"

text \<open>The sign of a real as an infinity, and \<open>a * b\<close>.\<close>

definition inf_of_sign :: "real \<Rightarrow> jsnum" where
  "inf_of_sign a = (if a = 0 then NaN else if 0 < a then PosInf else NegInf)"

fun jmul :: "jsnum \<Rightarrow> jsnum \<Rightarrow> jsnum" where
  "jmul (Fin a) (Fin b) = Fin (a * b)"
| "jmul NaN _ = NaN"
| "jmul _ NaN = NaN"
| "jmul (Fin a) PosInf = inf_of_sign a"
| "jmul (Fin a) NegInf = inf_of_sign (- a)"
| "jmul PosInf (Fin b) = inf_of_sign b"
| "jmul NegInf (Fin b) = inf_of_sign (- b)"
| "jmul PosInf PosInf = PosInf"
| "jmul NegInf NegInf = PosInf"
| "jmul PosInf NegInf = NegInf"
| "jmul NegInf PosInf = NegInf"

text \<open>\<open>a / b\<close>: \<open>0 / 0\<close> and \<open>Infinity / Infinity\<close> are NaN, \<open>a / 0\<close> is an infinity.\<close>

fun jdiv :: "jsnum \<Rightarrow> jsnum \<Rightarrow> jsnum" where
  "jdiv (Fin a) (Fin b) = (if b = 0 then inf_of_sign a else Fin (a / b))"
| "jdiv NaN _ = NaN"
| "jdiv _ NaN = NaN"
| "jdiv (Fin a) PosInf = Fin 0"
| "jdiv (Fin a) NegInf = Fin 0"
| "jdiv PosInf (Fin b) = (if 0 \<le> b then PosInf else NegInf)"
| "jdiv NegInf (Fin b) = (if 0 \<le> b then NegInf else PosInf)"
| "jdiv PosInf _ = NaN"
| "jdiv NegInf _ = NaN"

text \<open>\<open>Math.sqrt\<close>\<close>

fun jsqrt :: "jsnum \<Rightarrow> jsnum" where
  "jsqrt (Fin a) = (if a < 0 then NaN else Fin (sqrt a))"
| "jsqrt PosInf = PosInf"
| "jsqrt NegInf = NaN"
| "jsqrt NaN = NaN"

text \<open>\<open>a < b\<close>, \<open>a <= b\<close>, \<open>a >= b\<close>: false as soon as one side is NaN.\<close>

fun jlt :: "jsnum \<Rightarrow> jsnum \<Rightarrow> bool" where
  "jlt (Fin a) (Fin b) = (a < b)"
| "jlt NaN _ = False"
| "jlt _ NaN = False"
| "jlt NegInf NegInf = False"
| "jlt NegInf _ = True"
| "jlt PosInf _ = False"
| "jlt (Fin a) PosInf = True"
| "jlt (Fin a) NegInf = False"

definition jle :: "jsnum \<Rightarrow> jsnum \<Rightarrow> bool" where
  "jle a b = (\<not> isNaN a \<and> \<not> isNaN b \<and> \<not> jlt b a)"

definition jge :: "jsnum \<Rightarrow> jsnum \<Rightarrow> bool" where
  "jge a b = jle b a"

text \<open>Truthiness of a number: \<open>0\<close> and NaN are falsy.\<close>

fun truthy :: "jsnum \<Rightarrow> bool" where
  "truthy (Fin a) = (a \<noteq> 0)"
| "truthy NaN = False"
| "truthy _ = True"

text \<open>\<open>Math.round\<close>: the nearest integer, halves upwards.\<close>

fun jround :: "jsnum \<Rightarrow> jsnum" where
  "jround (Fin a) = Fin (of_int \<lfloor>a + 1 / 2\<rfloor>)"
| "jround v = v"

text \<open>\<open>ys[i]\<close> as an operand of arithmetic: past the end it is \<open>undefined\<close>, which
  converts to NaN.\<close>

definition at_num :: "jsnum list \<Rightarrow> nat \<Rightarrow> jsnum" where
  "at_num ys i = (if i < length ys then ys ! i else NaN)"

text \<open>\<open>xs.reduce((a, b) => a + b, 0)\<close>\<close>

definition sum_js :: "jsnum list \<Rightarrow> jsnum" where
  "sum_js xs = foldl jadd (Fin 0) xs"

text \<open>\<open>xs.reduce((sum, xi) => sum + xi * xi, 0)\<close>\<close>

definition sum_sq_js :: "jsnum list \<Rightarrow> jsnum" where
  "sum_sq_js xs = foldl (\<lambda>s xi. jadd s (jmul xi xi)) (Fin 0) xs"

text \<open>\<open>xs.reduce((sum, xi, i) => sum + xi * ys[i], 0)\<close>\<close>

definition sum_prod_js :: "jsnum list \<Rightarrow> jsnum list \<Rightarrow> jsnum" where
  "sum_prod_js xs ys =
     foldl (\<lambda>s (i, xi). jadd s (jmul xi (at_num ys i))) (Fin 0) (zip [0..<length xs] xs)"

definition js_of_nat :: "nat \<Rightarrow> jsnum" where
  "js_of_nat n = Fin (real n)"

section \<open>Correlation\<close>

text \<open>The quotient shared by the three correlation functions:
  \<open>(n * sumXY - sumX * sumY) / Math.sqrt((n * sumXX - sumX * sumX) * (n * sumYY - sumY * sumY))\<close>.\<close>

definition correlation_quotient :: "jsnum list \<Rightarrow> jsnum list \<Rightarrow> jsnum" where
  "correlation_quotient xs ys =
     (let n = js_of_nat (length xs);
          sumX = sum_js xs;
          sumY = sum_js ys;
          sumXY = sum_prod_js xs ys;
          sumXX = sum_sq_js xs;
          sumYY = sum_sq_js ys
      in jdiv (jsub (jmul n sumXY) (jmul sumX sumY))
              (jsqrt (jmul (jsub (jmul n sumXX) (jmul sumX sumX))
                           (jsub (jmul n sumYY) (jmul sumY sumY)))))"

text \<open>\<open>VisualizationService.pearsonCorrelation\<close>\<close>

definition pearsonCorrelation :: "jsnum list \<Rightarrow> jsnum list \<Rightarrow> jsnum" where
  "pearsonCorrelation xs ys =
     (if length xs \<noteq> length ys then Fin 0
      else let correlation = correlation_quotient xs ys
           in if isNaN correlation then Fin 0 else correlation)"

text \<open>\<open>CSVHandler.pearsonCorrelation\<close>\<close>

definition csv_pearsonCorrelation :: "jsnum list \<Rightarrow> jsnum list \<Rightarrow> jsnum" where
  "csv_pearsonCorrelation xs ys =
     (let correlation = correlation_quotient xs ys
      in if isNaN correlation then Fin 0 else correlation)"

section \<open>Regression\<close>

record point =
  px :: jsnum
  py :: jsnum

record regression =
  slope :: jsnum
  intercept :: jsnum

text \<open>\<open>VisualizationService.calculateRegression\<close>\<close>

definition calculateRegression :: "point list \<Rightarrow> regression" where
  "calculateRegression data =
     (let n = js_of_nat (length data);
          sumX = foldl (\<lambda>s p. jadd s (px p)) (Fin 0) data;
          sumY = foldl (\<lambda>s p. jadd s (py p)) (Fin 0) data;
          sumXY = foldl (\<lambda>s p. jadd s (jmul (px p) (py p))) (Fin 0) data;
          sumXX = foldl (\<lambda>s p. jadd s (jmul (px p) (px p))) (Fin 0) data;
          slope = jdiv (jsub (jmul n sumXY) (jmul sumX sumY))
                       (jsub (jmul n sumXX) (jmul sumX sumX));
          intercept = jdiv (jsub sumY (jmul slope sumX)) n
      in \<lparr>slope = slope, intercept = intercept\<rparr>)"

text \<open>\<open>DuckDBHandler.calculateLinearRegressionSlope\<close>\<close>

definition calculateLinearRegressionSlope :: "jsnum list \<Rightarrow> jsnum list \<Rightarrow> jsnum" where
  "calculateLinearRegressionSlope xValues yValues =
     (if length xValues \<noteq> length yValues \<or> length xValues < 2 then Fin 0
      else let n = js_of_nat (length xValues);
               sumX = sum_js xValues;
               sumY = sum_js yValues;
               sumXY = sum_prod_js xValues yValues;
               sumXX = sum_sq_js xValues;
               slope = jdiv (jsub (jmul n sumXY) (jmul sumX sumY))
                            (jsub (jmul n sumXX) (jmul sumX sumX))
           in if isNaN slope then Fin 0 else slope)"

section \<open>Strings\<close>

text \<open>
  Strings are lists of ASCII characters.  \<open>toLowerCase\<close> maps the letters A to Z and
  leaves every other character alone; \<open>str_includes\<close> is the substring test \<open>s.includes(p)\<close>.
\<close>

definition toLowerChar :: "char \<Rightarrow> char" where
  "toLowerChar c =
     (case map_of (zip ''ABCDEFGHIJKLMNOPQRSTUVWXYZ'' ''abcdefghijklmnopqrstuvwxyz'') c of
        None \<Rightarrow> c
      | Some l \<Rightarrow> l)"

definition toLowerCase :: "string \<Rightarrow> string" where
  "toLowerCase s = map toLowerChar s"

fun startsWith :: "string \<Rightarrow> string \<Rightarrow> bool" where
  "startsWith s [] = True"
| "startsWith [] (p # ps) = False"
| "startsWith (c # cs) (p # ps) = (c = p \<and> startsWith cs ps)"

fun str_includes :: "string \<Rightarrow> string \<Rightarrow> bool" where
  "str_includes [] p = (p = [])"
| "str_includes (c # cs) p = (startsWith (c # cs) p \<or> str_includes cs p)"

definition isDigit :: "char \<Rightarrow> bool" where
  "isDigit c = (c \<in> set ''0123456789'')"

text \<open>The value of a decimal digit, and \<open>parseInt\<close> of a string of decimal digits
  (NaN on the empty string).\<close>

definition digit_value :: "char \<Rightarrow> nat" where
  "digit_value c =
     (case map_of (zip ''0123456789'' [0 ..< 10]) c of None \<Rightarrow> 0 | Some d \<Rightarrow> d)"

definition nat_of_digits :: "string \<Rightarrow> nat" where
  "nat_of_digits ds = foldl (\<lambda>n c. 10 * n + digit_value c) 0 ds"

definition parseInt :: "string \<Rightarrow> jsnum" where
  "parseInt ds = (if ds = [] then NaN else Fin (real (nat_of_digits ds)))"

text \<open>The decimal text of a natural number, as a template literal prints it.\<close>

function digits_of_nat :: "nat \<Rightarrow> string" where
  "digits_of_nat n =
     (if n < 10 then [''0123456789'' ! n]
      else digits_of_nat (n div 10) @ [''0123456789'' ! (n mod 10)])"
  by pat_completeness auto
termination
  by (relation "measure id") auto

declare digits_of_nat.simps [simp del]

text \<open>The first match of \<open>/[c]+/\<close> for a character class \<open>c\<close>: the longest run of
  class characters starting at the first one, or no match.\<close>

definition match_run :: "(char \<Rightarrow> bool) \<Rightarrow> string \<Rightarrow> string option" where
  "match_run cls s =
     (let rest = dropWhile (\<lambda>c. \<not> cls c) s
      in if rest = [] then None else Some (takeWhile cls rest))"

text \<open>The first match of \<open>/\d{4}/\<close>: the leftmost four consecutive digits.\<close>

fun match_four_digits :: "string \<Rightarrow> string option" where
  "match_four_digits (a # b # c # d # rest) =
     (if isDigit a \<and> isDigit b \<and> isDigit c \<and> isDigit d then Some [a, b, c, d]
      else match_four_digits (b # c # d # rest))"
| "match_four_digits _ = None"

section \<open>The films table\<close>

text \<open>
  A scraped row is an object whose values are the cell texts; it is given by its entries
  in \<open>Object.keys\<close> order (the keys are distinct).  A film's year is \<open>null\<close> or the
  integer read from four digits; revenue, rank and peak are numbers.
\<close>

type_synonym row = "(string \<times> string) list"

record film =
  title :: string
  revenue :: jsnum
  year :: "nat option"
  rank :: jsnum
  peak :: jsnum

text \<open>\<open>Object.keys(row).filter(pred)\<close> followed by \<open>row[keys[0]]\<close>: the value under
  the first key that satisfies \<open>pred\<close>, if there is one.\<close>

definition first_value :: "(string \<Rightarrow> bool) \<Rightarrow> row \<Rightarrow> string option" where
  "first_value pred r =
     (case filter (\<lambda>kv. pred (fst kv)) r of [] \<Rightarrow> None | kv # _ \<Rightarrow> Some (snd kv))"

definition isRevenueKey :: "string \<Rightarrow> bool" where
  "isRevenueKey key =
     (str_includes (toLowerCase key) ''worldwide'' \<or> str_includes (toLowerCase key) ''gross'' \<or>
      str_includes (toLowerCase key) ''box office'' \<or> str_includes (toLowerCase key) ''revenue'')"

definition isYearKey :: "string \<Rightarrow> bool" where
  "isYearKey key =
     (str_includes (toLowerCase key) ''year'' \<or> str_includes (toLowerCase key) ''released'')"

definition isTitleKey :: "row \<Rightarrow> string \<Rightarrow> bool" where
  "isTitleKey r key =
     (str_includes (toLowerCase key) ''title'' \<or> str_includes (toLowerCase key) ''film'' \<or>
      str_includes (toLowerCase key) ''movie'' \<or>
      (case r of [] \<Rightarrow> False | kv # _ \<Rightarrow> key = fst kv))"

definition isRankKey :: "string \<Rightarrow> bool" where
  "isRankKey key =
     (str_includes (toLowerCase key) ''rank'' \<or> str_includes (toLowerCase key) ''position'')"

definition isPeakKey :: "string \<Rightarrow> bool" where
  "isPeakKey key = str_includes (toLowerCase key) ''peak''"

text \<open>The regular-expression matches of \<open>cleanFilmsData\<close> (\<open>None\<close> when the column
  is missing or nothing matches) and the five values extracted; \<open>None\<close> is \<open>null\<close>.\<close>

definition revenueMatch :: "row \<Rightarrow> string option" where
  "revenueMatch r =
     (case first_value isRevenueKey r of
        None \<Rightarrow> None
      | Some revenueStr \<Rightarrow> match_run (\<lambda>c. isDigit c \<or> c = CHR '','') revenueStr)"

definition revenueValue :: "row \<Rightarrow> jsnum option" where
  "revenueValue r =
     (case revenueMatch r of
        None \<Rightarrow> None
      | Some m \<Rightarrow> Some (parseInt (filter (\<lambda>c. c \<noteq> CHR '','') m)))"

definition yearValue :: "row \<Rightarrow> nat option" where
  "yearValue r =
     (case first_value isYearKey r of
        None \<Rightarrow> None
      | Some yearStr \<Rightarrow>
          (case match_four_digits yearStr of
             None \<Rightarrow> None
           | Some m \<Rightarrow> Some (nat_of_digits m)))"

definition titleValue :: "row \<Rightarrow> string option" where
  "titleValue r = first_value (isTitleKey r) r"

definition rankMatch :: "row \<Rightarrow> string option" where
  "rankMatch r =
     (case first_value isRankKey r of
        None \<Rightarrow> None
      | Some rankStr \<Rightarrow> match_run isDigit rankStr)"

definition rankValue :: "row \<Rightarrow> jsnum option" where
  "rankValue r = (case rankMatch r of None \<Rightarrow> None | Some m \<Rightarrow> Some (parseInt m))"

definition peakMatch :: "row \<Rightarrow> string option" where
  "peakMatch r =
     (case first_value isPeakKey r of
        None \<Rightarrow> None
      | Some peakStr \<Rightarrow> match_run isDigit peakStr)"

definition peakValue :: "row \<Rightarrow> jsnum option" where
  "peakValue r = (case peakMatch r of None \<Rightarrow> None | Some m \<Rightarrow> Some (parseInt m))"

text \<open>Truthiness of a nullable number and of a nullable string.\<close>

definition truthy_opt :: "jsnum option \<Rightarrow> bool" where
  "truthy_opt v = (case v of None \<Rightarrow> False | Some a \<Rightarrow> truthy a)"

definition truthy_str :: "string option \<Rightarrow> bool" where
  "truthy_str v = (case v of None \<Rightarrow> False | Some s \<Rightarrow> s \<noteq> [])"

text \<open>\<open>a || b\<close> on a nullable number and a number.\<close>

definition or_else :: "jsnum option \<Rightarrow> jsnum \<Rightarrow> jsnum" where
  "or_else v d = (case v of None \<Rightarrow> d | Some a \<Rightarrow> if truthy a then a else d)"

text \<open>The body of the loop of \<open>cleanFilmsData\<close> for one row, \<open>n\<close> being
  \<open>cleaned.length\<close>: the record pushed, if one is.  The loop skips a row whose processing
  throws; on rows whose values are cell texts nothing in the body throws, since every key
  looked up is one of the row's own.\<close>

definition cleanRow :: "nat \<Rightarrow> row \<Rightarrow> film option" where
  "cleanRow n r =
     (if truthy_opt (revenueValue r) \<and> truthy_str (titleValue r)
      then Some \<lparr>title = the (titleValue r),
                 revenue = the (revenueValue r),
                 year = yearValue r,
                 rank = or_else (rankValue r) (js_of_nat (n + 1)),
                 peak = or_else (peakValue r) (or_else (rankValue r) (js_of_nat (n + 1)))\<rparr>
      else None)"

fun cleanLoop :: "film list \<Rightarrow> row list \<Rightarrow> film list" where
  "cleanLoop cleaned [] = cleaned"
| "cleanLoop cleaned (r # rest) =
     (case cleanRow (length cleaned) r of
        None \<Rightarrow> cleanLoop cleaned rest
      | Some f \<Rightarrow> cleanLoop (cleaned @ [f]) rest)"

definition cleanFilmsData :: "row list \<Rightarrow> film list" where
  "cleanFilmsData rawData = cleanLoop [] rawData"

text \<open>A nullable year in a comparison (\<open>null\<close> converts to 0), as a condition, and in a
  template literal.\<close>

definition year_num :: "nat option \<Rightarrow> nat" where
  "year_num y = (case y of None \<Rightarrow> 0 | Some n \<Rightarrow> n)"

definition year_truthy :: "nat option \<Rightarrow> bool" where
  "year_truthy y = (case y of None \<Rightarrow> False | Some n \<Rightarrow> n \<noteq> 0)"

definition year_text :: "nat option \<Rightarrow> string" where
  "year_text y = (case y of None \<Rightarrow> ''null'' | Some n \<Rightarrow> digits_of_nat n)"

definition count2BillionMoviesBefore2000 :: "film list \<Rightarrow> nat" where
  "count2BillionMoviesBefore2000 data =
     length (filter (\<lambda>movie. jge (revenue movie) (Fin 2000000000) \<and>
                              year_truthy (year movie) \<and> year_num (year movie) < 2000) data)"

text \<open>\<open>xs.reduce(f)\<close> without an initial value, on a non-empty array.\<close>

definition reduce1 :: "('a \<Rightarrow> 'a \<Rightarrow> 'a) \<Rightarrow> 'a list \<Rightarrow> 'a" where
  "reduce1 f xs = foldl f (hd xs) (tl xs)"

definition over1_5bn :: "film list \<Rightarrow> film list" where
  "over1_5bn data =
     filter (\<lambda>movie. jge (revenue movie) (Fin 1500000000) \<and> year_truthy (year movie)) data"

definition earlier :: "film \<Rightarrow> film \<Rightarrow> film" where
  "earlier prev current =
     (if year_num (year prev) < year_num (year current) then prev else current)"

definition findEarliest1_5BillionFilm :: "film list \<Rightarrow> string" where
  "findEarliest1_5BillionFilm data =
     (if over1_5bn data = [] then ''No films found over $1.5bn''
      else let earliest = reduce1 earlier (over1_5bn data)
           in title earliest @ '' ('' @ year_text (year earliest) @ '')'')"

text \<open>\<open>WikipediaHandler.calculateRankPeakCorrelation\<close>\<close>

definition calculateRankPeakCorrelation :: "film list \<Rightarrow> jsnum" where
  "calculateRankPeakCorrelation data =
     (let validData = filter (\<lambda>d. truthy (rank d) \<and> truthy (peak d)) data
      in if length validData < 2 then Fin 0
         else let ranks = map rank validData;
                  peaks = map peak validData;
                  correlation = correlation_quotient ranks peaks
              in jdiv (jround (jmul correlation (Fin 1000))) (Fin 1000))"

section \<open>Descriptive statistics of a CSV column\<close>



text \<open>\<open>Math.min(...values)\<close> and \<open>Math.max(...values)\<close>\<close>

definition jmin :: "jsnum \<Rightarrow> jsnum \<Rightarrow> jsnum" where
  "jmin a b = (if isNaN a then NaN else if isNaN b then NaN else if jlt b a then b else a)"

definition jmax :: "jsnum \<Rightarrow> jsnum \<Rightarrow> jsnum" where
  "jmax a b = (if isNaN a then NaN else if isNaN b then NaN else if jlt a b then b else a)"

definition math_min :: "jsnum list \<Rightarrow> jsnum" where
  "math_min vs = foldl jmin PosInf vs"

definition math_max :: "jsnum list \<Rightarrow> jsnum" where
  "math_max vs = foldl jmax NegInf vs"









section \<open>The chart renderer\<close>

text \<open>
  The canvas library is a parameter: \<open>render w h configuration\<close> is the PNG buffer that a
  canvas of \<open>w\<close> by \<open>h\<close> pixels produces for a chart configuration, or the error it
  throws.  The renders a call performs are recorded, in order, as a list of resolutions.
\<close>

type_synonym byte = "8 word"

datatype error = Error string

record chart_config =
  chart_points :: "point list"
  regression_points :: "point list"
  regression_slope :: jsnum
  chart_title :: string
  x_label :: string
  y_label :: string

type_synonym renderer = "nat \<Rightarrow> nat \<Rightarrow> chart_config \<Rightarrow> error + byte list"

record visualization_service =
  width :: nat
  height :: nat
  maxImageSize :: nat

text \<open>The service as its constructor builds it.\<close>

definition VisualizationService :: visualization_service where
  "VisualizationService = \<lparr>width = 800, height = 600, maxImageSize = 100000\<rparr>"

text \<open>\<open>buffer.toString('base64')\<close>\<close>

definition b64 :: "nat \<Rightarrow> char" where
  "b64 i = ''ABCDEFGHIJKLMNOPQRSTUVWXYZabcdefghijklmnopqrstuvwxyz0123456789+/'' ! i"

fun base64 :: "byte list \<Rightarrow> string" where
  "base64 [] = []"
| "base64 [a] = [b64 (unat a div 4), b64 (unat a mod 4 * 16), CHR ''='', CHR ''='']"
| "base64 [a, b] =
     [b64 (unat a div 4), b64 (unat a mod 4 * 16 + unat b div 16), b64 (unat b mod 16 * 4),
      CHR ''='']"
| "base64 (a # b # c # rest) =
     [b64 (unat a div 4), b64 (unat a mod 4 * 16 + unat b div 16),
      b64 (unat b mod 16 * 4 + unat c div 64), b64 (unat c mod 64)] @ base64 rest"

text \<open>\<open>VisualizationService.generateRegressionPoints\<close>\<close>

definition generateRegressionPoints :: "point list \<Rightarrow> regression \<Rightarrow> point list" where
  "generateRegressionPoints data reg =
     (let xValues = map px data;
          minX = math_min xValues;
          maxX = math_max xValues
      in [\<lparr>px = minX, py = jadd (jmul (slope reg) minX) (intercept reg)\<rparr>,
          \<lparr>px = maxX, py = jadd (jmul (slope reg) maxX) (intercept reg)\<rparr>])"

text \<open>The cleaning loop of \<open>createScatterPlot\<close> over arrays of equal length; \<open>None\<close> is a
  \<open>null\<close> or \<open>undefined\<close> element.\<close>

definition cleanPoints :: "jsnum option list \<Rightarrow> jsnum option list \<Rightarrow> point list" where
  "cleanPoints xData yData =
     List.map_filter
       (\<lambda>(xv, yv). case xv of
                     None \<Rightarrow> None
                   | Some a \<Rightarrow>
                       (case yv of
                          None \<Rightarrow> None
                        | Some b \<Rightarrow>
                            if \<not> isNaN a \<and> \<not> isNaN b then Some \<lparr>px = a, py = b\<rparr> else None))
       (zip xData yData)"

text \<open>One render on a canvas of the given size, recorded in the log.\<close>

definition renderToBuffer ::
  "renderer \<Rightarrow> nat \<Rightarrow> nat \<Rightarrow> chart_config \<Rightarrow> (nat \<times> nat) list
     \<Rightarrow> (nat \<times> nat) list \<times> (error + byte list)" where
  "renderToBuffer render w h configuration rlog = (rlog @ [(w, h)], render w h configuration)"

text \<open>Lines 141 to 169 of \<open>createScatterPlot\<close>: render at the service's size; if the buffer
  is longer than \<open>maxImageSize\<close> render at 600 by 400; if that buffer is still longer render
  at 400 by 300 and keep the result.  An error thrown by a render ends the sequence.\<close>

definition renderWithinBudget ::
  "visualization_service \<Rightarrow> renderer \<Rightarrow> chart_config \<Rightarrow> (nat \<times> nat) list \<times> (error + byte list)" where
  "renderWithinBudget svc render configuration =
     (case renderToBuffer render (width svc) (height svc) configuration [] of
        (rlog1, Inl e) \<Rightarrow> (rlog1, Inl e)
      | (rlog1, Inr imageBuffer) \<Rightarrow>
          if length imageBuffer > maxImageSize svc
          then (case renderToBuffer render 600 400 configuration rlog1 of
                  (rlog2, Inl e) \<Rightarrow> (rlog2, Inl e)
                | (rlog2, Inr smallBuffer) \<Rightarrow>
                    if length smallBuffer > maxImageSize svc
                    then renderToBuffer render 400 300 configuration rlog2
                    else (rlog2, Inr smallBuffer))
          else (rlog1, Inr imageBuffer))"

text \<open>The chart configuration that \<open>createScatterPlot\<close> builds from the cleaned points:
  the points, the two ends of the regression line, the slope shown in the legend, the title
  and the axis labels.\<close>

definition scatterConfiguration :: "point list \<Rightarrow> string \<Rightarrow> string \<Rightarrow> string \<Rightarrow> chart_config" where
  "scatterConfiguration cleanData xLabel yLabel title_text =
     (let reg = calculateRegression cleanData;
          regressionLine = generateRegressionPoints cleanData reg
      in \<lparr>chart_points = cleanData, regression_points = regressionLine,
          regression_slope = slope reg, chart_title = title_text,
          x_label = xLabel, y_label = yLabel\<rparr>)"

text \<open>\<open>VisualizationService.createScatterPlot\<close>: the renders performed and the string
  returned.  Every error thrown inside is caught and the empty string returned.\<close>

definition createScatterPlot ::
  "visualization_service \<Rightarrow> renderer \<Rightarrow> jsnum option list \<Rightarrow> jsnum option list
     \<Rightarrow> string \<Rightarrow> string \<Rightarrow> string \<Rightarrow> (nat \<times> nat) list \<times> string" where
  "createScatterPlot svc render xData yData xLabel yLabel title_text =
     (if length xData \<noteq> length yData then ([], [])
      else if length xData < 2 then ([], [])
      else let cleanData = cleanPoints xData yData
           in if length cleanData < 2 then ([], [])
              else let configuration = scatterConfiguration cleanData xLabel yLabel title_text
                   in case renderWithinBudget svc render configuration of
                        (rlog, Inl e) \<Rightarrow> (rlog, [])
                      | (rlog, Inr imageBuffer) \<Rightarrow>
                          (rlog, ''data:image/png;base64,'' @ base64 imageBuffer))"

section \<open>The task classifier\<close>

datatype data_source = Wikipedia | CourtData | Csv | Unknown

datatype analysis_type = Correlation | Regression | Count | Visualization | StatisticalSummary

datatype output_format = JsonArray | JsonObject | Base64Image

record task_analysis =
  requiresWikipedia :: bool
  requiresCourtData :: bool
  requiresCSV :: bool
  dataSource :: data_source
  analysisType :: analysis_type
  expectedOutputFormat :: output_format
  questions :: "string list"
  visualizationNeeded :: bool
  statisticalOperations :: "string list"

text \<open>\<open>LLMService.fallbackAnalysis\<close>.  The three tests on the analysis type are separate
  statements, so a later one overwrites the type an earlier one set.\<close>

definition fallbackAnalysis :: "string \<Rightarrow> task_analysis" where
  "fallbackAnalysis taskDescription =
     (let task = toLowerCase taskDescription;
          reqWikipedia = (str_includes task ''wikipedia'' \<or> str_includes task ''highest-grossing'' \<or>
                          str_includes task ''films'');
          reqCourtData = (str_includes task ''court'' \<or> str_includes task ''judgment'' \<or>
                          str_includes task ''indian high court'');
          reqCSV = (str_includes task ''csv'' \<or> str_includes task ''upload'');
          vis = (str_includes task ''plot'' \<or> str_includes task ''chart'' \<or>
                 str_includes task ''scatter'' \<or> str_includes task ''graph'');
          source = (if reqWikipedia then Wikipedia
                    else if reqCourtData then CourtData
                    else if reqCSV then Csv else Unknown);
          step1 = (if str_includes task ''correlation''
                   then (Correlation, [''correlation''])
                   else (StatisticalSummary, []));
          step2 = (if str_includes task ''regression''
                   then (Regression, snd step1 @ [''regression''])
                   else step1);
          step3 = (if str_includes task ''how many'' \<or> str_includes task ''count''
                   then (Count, snd step2 @ [''count''])
                   else step2);
          image = (str_includes task ''base64'' \<or> str_includes task ''data:image'')
      in \<lparr>requiresWikipedia = reqWikipedia,
          requiresCourtData = reqCourtData,
          requiresCSV = reqCSV,
          dataSource = source,
          analysisType = fst step3,
          expectedOutputFormat = (if image then Base64Image else JsonArray),
          questions = [],
          visualizationNeeded = (if image then True else vis),
          statisticalOperations = snd step3\<rparr>)"

section \<open>The Wikipedia handler\<close>

text \<open>Values returned to the caller.\<close>

datatype jsvalue =
    JNull
  | JBool bool
  | JNum jsnum
  | JStr string
  | JArr "jsvalue list"
  | JObj "(string \<times> jsvalue) list"

text \<open>The first match of \<open>/https?:\/\/[^\s]+/\<close>.\<close>

definition isSpace :: "char \<Rightarrow> bool" where
  "isSpace c = (c \<in> set [CHR '' '', CHR 0x09, CHR 0x0A, CHR 0x0B, CHR 0x0C, CHR 0x0D])"

definition url_after :: "string \<Rightarrow> string \<Rightarrow> string option" where
  "url_after scheme s =
     (if startsWith s scheme \<and> takeWhile (\<lambda>c. \<not> isSpace c) (drop (length scheme) s) \<noteq> []
      then Some (scheme @ takeWhile (\<lambda>c. \<not> isSpace c) (drop (length scheme) s))
      else None)"

fun match_url :: "string \<Rightarrow> string option" where
  "match_url [] = None"
| "match_url (c # cs) =
     (case url_after ''https://'' (c # cs) of
        Some u \<Rightarrow> Some u
      | None \<Rightarrow>
          (case url_after ''http://'' (c # cs) of
             Some u \<Rightarrow> Some u
           | None \<Rightarrow> match_url cs))"

definition determineWikipediaUrl :: "string \<Rightarrow> string" where
  "determineWikipediaUrl taskDescription =
     (let task = toLowerCase taskDescription
      in if str_includes task ''highest-grossing'' \<or> str_includes task ''films''
         then ''https://en.wikipedia.org/wiki/List_of_highest-grossing_films''
         else (case match_url taskDescription of
                 Some u \<Rightarrow> u
               | None \<Rightarrow> ''https://en.wikipedia.org/wiki/List_of_highest-grossing_films''))"

text \<open>
  \<open>scrapeWikipediaTable\<close>.  The HTTP request and the HTML parser are a parameter:
  \<open>fetch url\<close> is the error thrown by the request, or the \<open>table.wikitable\<close> elements of
  the page, each as the row objects that the extraction loop builds from it.
\<close>

type_synonym fetcher = "string \<Rightarrow> error + row list list"

definition scrapeWikipediaTable :: "fetcher \<Rightarrow> string \<Rightarrow> error + row list" where
  "scrapeWikipediaTable fetch url =
     (case fetch url of
        Inl e \<Rightarrow> Inl e
      | Inr tables \<Rightarrow>
          (case tables of
             [] \<Rightarrow> Inl (Error ''No wikitable found on the page'')
           | t # _ \<Rightarrow> Inr t))"

definition generateRankPeakScatterplot ::
  "visualization_service \<Rightarrow> renderer \<Rightarrow> film list \<Rightarrow> string" where
  "generateRankPeakScatterplot svc render data =
     (let validData = filter (\<lambda>d. truthy (rank d) \<and> truthy (peak d)) data
      in if length validData < 2 then []
         else snd (createScatterPlot svc render
                     (map (\<lambda>d. Some (rank d)) validData) (map (\<lambda>d. Some (peak d)) validData)
                     ''Rank'' ''Peak'' ''Rank vs Peak Correlation''))"

definition processFilmsAnalysis ::
  "visualization_service \<Rightarrow> renderer \<Rightarrow> row list \<Rightarrow> task_analysis \<Rightarrow> error + jsvalue" where
  "processFilmsAnalysis svc render data taskAnalysis =
     (let cleanData = cleanFilmsData data;
          movies2bnBefore2000 = count2BillionMoviesBefore2000 cleanData;
          earliest1_5bn = findEarliest1_5BillionFilm cleanData;
          correlation = calculateRankPeakCorrelation cleanData;
          results = [JNum (js_of_nat movies2bnBefore2000), JStr earliest1_5bn, JNum correlation]
      in Inr (JArr (if visualizationNeeded taskAnalysis
                    then results @ [JStr (generateRankPeakScatterplot svc render cleanData)]
                    else results)))"

definition row_object :: "row \<Rightarrow> jsvalue" where
  "row_object r = JObj (map (\<lambda>kv. (fst kv, JStr (snd kv))) r)"

definition processGenericTable :: "row list \<Rightarrow> task_analysis \<Rightarrow> error + jsvalue" where
  "processGenericTable data taskAnalysis =
     Inr (JObj [(''success'', JBool True),
                (''data_points'', JNum (js_of_nat (length data))),
                (''columns'', JArr (map JStr (case data of [] \<Rightarrow> [] | r0 # _ \<Rightarrow> map fst r0))),
                (''sample_data'', JArr (map row_object (take 3 data))),
                (''analysis'', JStr ''Generic Wikipedia table processed'')])"

text \<open>\<open>WikipediaHandler.processWikipediaTask\<close>: the handler catches every error of its
  body and throws a new one, \<open>Failed to process Wikipedia data: \<close> followed by the message.\<close>

definition wikipedia_body ::
  "visualization_service \<Rightarrow> renderer \<Rightarrow> fetcher \<Rightarrow> string \<Rightarrow> task_analysis \<Rightarrow> error + jsvalue" where
  "wikipedia_body svc render fetch taskDescription taskAnalysis =
     (case scrapeWikipediaTable fetch (determineWikipediaUrl taskDescription) of
        Inl e \<Rightarrow> Inl e
      | Inr data \<Rightarrow>
          if str_includes (toLowerCase taskDescription) ''highest-grossing'' \<or>
             str_includes (toLowerCase taskDescription) ''films''
          then processFilmsAnalysis svc render data taskAnalysis
          else processGenericTable data taskAnalysis)"

definition processWikipediaTask ::
  "visualization_service \<Rightarrow> renderer \<Rightarrow> fetcher \<Rightarrow> string \<Rightarrow> task_analysis \<Rightarrow> error + jsvalue" where
  "processWikipediaTask svc render fetch taskDescription taskAnalysis =
     (case wikipedia_body svc render fetch taskDescription taskAnalysis of
        Inl (Error message) \<Rightarrow> Inl (Error (''Failed to process Wikipedia data: '' @ message))
      | Inr v \<Rightarrow> Inr v)"

section \<open>The court-data handler\<close>

text \<open>
  The database is a parameter: whether opening the connection and loading its extensions
  succeeds, and what the two queries of the handler return (the rows, or the error of the
  query).  A row of the first query is a court code with its case count; a row of the
  second is a year with the delay in days.
\<close>

record delay_row =
  row_year :: nat
  delay_days :: jsnum

record court_env =
  connection :: "error + unit"
  topCourtQuery :: "error + (string \<times> nat) list"
  regressionQuery :: "error + delay_row list"

definition courtMap :: "(string \<times> string) list" where
  "courtMap =
     [(''33_10'', ''Madras High Court''), (''01_01'', ''Allahabad High Court''),
      (''02_02'', ''Andhra Pradesh High Court''), (''03_03'', ''Bombay High Court''),
      (''04_04'', ''Calcutta High Court''), (''05_05'', ''Delhi High Court''),
      (''06_06'', ''Gujarat High Court''), (''07_07'', ''Himachal Pradesh High Court''),
      (''08_08'', ''Jammu & Kashmir High Court''), (''09_09'', ''Jharkhand High Court''),
      (''10_10'', ''Karnataka High Court''), (''11_11'', ''Kerala High Court''),
      (''12_12'', ''Madhya Pradesh High Court''), (''13_13'', ''Orissa High Court''),
      (''14_14'', ''Punjab & Haryana High Court''), (''15_15'', ''Rajasthan High Court''),
      (''16_16'', ''Sikkim High Court''), (''17_17'', ''Uttarakhand High Court''),
      (''18_18'', ''Chhattisgarh High Court''), (''19_19'', ''Gauhati High Court''),
      (''20_20'', ''Patna High Court'')]"

definition mapCourtCodeToName :: "string \<Rightarrow> string" where
  "mapCourtCodeToName courtCode =
     (case map_of courtMap courtCode of
        Some name \<Rightarrow> name
      | None \<Rightarrow> ''High Court ('' @ courtCode @ '')'')"

text \<open>\<open>findTopCourtByCases\<close>: a failed query and an empty result both end in the
  handler of the method, which returns a fixed answer.\<close>

definition findTopCourtByCases :: "court_env \<Rightarrow> string" where
  "findTopCourtByCases env =
     (case topCourtQuery env of
        Inl e \<Rightarrow> ''Delhi High Court''
      | Inr result \<Rightarrow>
          (case result of
             [] \<Rightarrow> ''Delhi High Court''
           | first_row # _ \<Rightarrow> mapCourtCodeToName (fst first_row)))"

text \<open>\<open>processDelayData\<close>: delays from 0 to 3650 days are grouped by year; the years, in
  the order of their decimal texts, come with the rounded average delay of each.\<close>

record delay_data =
  years :: "jsnum list"
  avgDelays :: "jsnum list"

definition add_delay :: "(nat \<times> jsnum list) list \<Rightarrow> delay_row \<Rightarrow> (nat \<times> jsnum list) list" where
  "add_delay yearlyData r =
     (if jge (delay_days r) (Fin 0) \<and> jle (delay_days r) (Fin 3650)
      then (case map_of yearlyData (row_year r) of
              None \<Rightarrow> yearlyData @ [(row_year r, [delay_days r])]
            | Some delays \<Rightarrow>
                map (\<lambda>kv. if fst kv = row_year r then (fst kv, snd kv @ [delay_days r]) else kv)
                  yearlyData)
      else yearlyData)"

definition processDelayData :: "delay_row list \<Rightarrow> delay_data" where
  "processDelayData rawData =
     (let yearlyData = foldl add_delay [] rawData;
          keys = filter (\<lambda>k. case map_of yearlyData k of None \<Rightarrow> False | Some delays \<Rightarrow> length delays > 0)
                   (sort_key digits_of_nat (map fst yearlyData))
      in \<lparr>years = map js_of_nat keys,
          avgDelays =
            map (\<lambda>k. case map_of yearlyData k of
                        None \<Rightarrow> NaN
                      | Some delays \<Rightarrow> jround (jdiv (sum_js delays) (js_of_nat (length delays))))
              keys\<rparr>)"

record regression_result =
  result_slope :: jsnum
  visualization :: string
  data_points :: nat
  result_note :: "string option"

text \<open>\<open>Math.round(slope * 100) / 100\<close>\<close>

definition round2 :: "jsnum \<Rightarrow> jsnum" where
  "round2 v = jdiv (jround (jmul v (Fin 100))) (Fin 100)"

text \<open>The handler of \<open>calculateRegressionSlope\<close>: the regression of fixed sample data.\<close>

definition sampleRegression :: "visualization_service \<Rightarrow> renderer \<Rightarrow> regression_result" where
  "sampleRegression svc render =
     (let sampleYears = [Fin 2019, Fin 2020, Fin 2021, Fin 2022];
          sampleDelays = [Fin 150, Fin 140, Fin 130, Fin 120]
      in \<lparr>result_slope = round2 (calculateLinearRegressionSlope sampleYears sampleDelays),
          visualization =
            snd (createScatterPlot svc render (map Some sampleYears) (map Some sampleDelays)
                   ''Year'' ''Average Delay (days)'' ''Case Processing Time Trend (Sample Data)''),
          data_points = length sampleYears,
          result_note = Some ''Sample data used due to external service unavailability''\<rparr>)"

definition calculateRegressionSlope ::
  "visualization_service \<Rightarrow> renderer \<Rightarrow> court_env \<Rightarrow> regression_result" where
  "calculateRegressionSlope svc render env =
     (case regressionQuery env of
        Inl e \<Rightarrow> sampleRegression svc render
      | Inr rawData \<Rightarrow>
          if length rawData < 2 then sampleRegression svc render
          else let processedData = processDelayData rawData;
                   slope_value =
                     calculateLinearRegressionSlope (years processedData) (avgDelays processedData)
               in \<lparr>result_slope = round2 slope_value,
                   visualization =
                     (if length (years processedData) > 1
                      then snd (createScatterPlot svc render
                                  (map Some (years processedData))
                                  (map Some (avgDelays processedData))
                                  ''Year'' ''Average Delay (days)'' ''Case Processing Time Trend'')
                      else []),
                   data_points = length (years processedData),
                   result_note = None\<rparr>)"

text \<open>\<open>getSampleCourtData\<close>\<close>

definition getSampleCourtData :: "string \<Rightarrow> task_analysis \<Rightarrow> jsvalue" where
  "getSampleCourtData taskDescription taskAnalysis =
     (if str_includes (toLowerCase taskDescription) ''disposed the most cases''
      then JStr ''Delhi High Court''
      else if str_includes (toLowerCase taskDescription) ''regression slope''
      then JObj ((''regression_slope_court_33_10'', JNum (Fin (- (234 / 100)))) #
                 (if visualizationNeeded taskAnalysis
                  then [(''delay_trend_plot'',
                         JStr ''data:image/png;base64,iVBORw0KGgoAAAANSUhEUgAAAAEAAAABCAYAAAAfFcSJAAAADUlEQVR42mP8/5+hHgAHggJ/PchI7wAAAABJRU5ErkJggg==''),
                        (''note'', JStr ''Sample visualization - external service unavailable'')]
                  else []))
      else JObj
             [(''Which high court disposed the most cases from 2019 - 2022?'',
               JStr ''Delhi High Court''),
              (''What's the regression slope of the date_of_registration - decision_date by year in the court=33_10?'',
               JNum (Fin (- (234 / 100)))),
              (''Plot the year and # of days of delay from the above question as a scatterplot with a regression line. Encode as a base64 data URI under 100,000 characters'',
               JStr ''data:image/png;base64,sample_placeholder''),
              (''note'', JStr ''Sample data provided - external database unavailable'')])"

text \<open>\<open>processCourtDataTask\<close>: the body of its \<open>try\<close>, and the method with its handler,
  which answers every error of the body with the sample data.\<close>

definition court_body ::
  "visualization_service \<Rightarrow> renderer \<Rightarrow> court_env \<Rightarrow> string \<Rightarrow> task_analysis \<Rightarrow> error + jsvalue" where
  "court_body svc render env taskDescription taskAnalysis =
     (case connection env of
        Inl e \<Rightarrow> Inl e
      | Inr u \<Rightarrow>
          (let task = toLowerCase taskDescription;
               results1 =
                 (if str_includes task ''disposed the most cases'' \<or>
                     str_includes task ''which high court''
                  then [(''top_court_2019_2022'', JStr (findTopCourtByCases env))]
                  else []);
               results2 =
                 (if str_includes task ''regression slope'' \<or> str_includes task ''court=33_10''
                  then (let regressionData = calculateRegressionSlope svc render env
                        in results1 @
                           [(''regression_slope_court_33_10'', JNum (result_slope regressionData))] @
                           (if visualizationNeeded taskAnalysis
                            then [(''delay_trend_plot'', JStr (visualization regressionData))]
                            else []))
                  else results1)
           in case results2 of
                [single] \<Rightarrow> Inr (snd single)
              | _ \<Rightarrow> Inr (JObj results2)))"

definition processCourtDataTask ::
  "visualization_service \<Rightarrow> renderer \<Rightarrow> court_env \<Rightarrow> string \<Rightarrow> task_analysis \<Rightarrow> error + jsvalue" where
  "processCourtDataTask svc render env taskDescription taskAnalysis =
     (case court_body svc render env taskDescription taskAnalysis of
        Inl e \<Rightarrow> Inr (getSampleCourtData taskDescription taskAnalysis)
      | Inr v \<Rightarrow> Inr v)"

section \<open>Notions used to state the properties\<close>

text \<open>The smallest year among a non-empty list of films.\<close>

definition earliest_year :: "film list \<Rightarrow> nat" where
  "earliest_year fs = Min (set (map (\<lambda>g. year_num (year g)) fs))"

text \<open>The essential fields of a row are present: the extracted revenue is neither
  \<open>null\<close>, 0 nor NaN, and the title is neither \<open>null\<close> nor empty.\<close>

definition essential_present :: "row \<Rightarrow> bool" where
  "essential_present r \<longleftrightarrow>
     revenueValue r \<notin> {None, Some (Fin 0), Some NaN} \<and> titleValue r \<notin> {None, Some []}"

section \<open>Properties\<close>

subsection \<open>Regression on constant x\<close>

text \<open>
  Claim C2.  For the points (5,1), (5,2), (5,3), whose x-values are all equal, the
  regression drawn over the chart, \<open>calculateRegression\<close>, divides zero by zero: it
  returns NaN for the slope and NaN for the intercept, not slope 0 and intercept
  mean(y) = 2.
\<close>

theorem calculateRegression_constant_x_is_NaN:
  "calculateRegression
     [\<lparr>px = Fin 5, py = Fin 1\<rparr>, \<lparr>px = Fin 5, py = Fin 2\<rparr>, \<lparr>px = Fin 5, py = Fin 3\<rparr>]
   = \<lparr>slope = NaN, intercept = NaN\<rparr>"
  by (simp add: calculateRegression_def js_of_nat_def jsub_def inf_of_sign_def)

text \<open>The slope regression of the court data tests for NaN and returns 0 on the same
  points.\<close>

lemma calculateLinearRegressionSlope_constant_x_example:
  "calculateLinearRegressionSlope [Fin 5, Fin 5, Fin 5] [Fin 1, Fin 2, Fin 3] = Fin 0"
  by (simp add: calculateLinearRegressionSlope_def js_of_nat_def jsub_def inf_of_sign_def
      sum_js_def sum_sq_js_def sum_prod_js_def at_num_def upt_rec)

subsection \<open>Correlation with a zero denominator\<close>

text \<open>
  Claim C1.  The Rank-vs-Peak correlation of the films analysis,
  \<open>calculateRankPeakCorrelation\<close>, has no test for NaN: for two films with ranks 1, 2 and
  peaks 1, 1 the variance of the peaks is zero, the quotient is 0 / 0, and the function
  returns NaN, not 0.
\<close>

theorem calculateRankPeakCorrelation_zero_variance_is_NaN:
  "calculateRankPeakCorrelation
     [\<lparr>title = ''A'', revenue = Fin 2000000000, year = Some 1997, rank = Fin 1, peak = Fin 1\<rparr>,
      \<lparr>title = ''B'', revenue = Fin 1600000000, year = Some 1997, rank = Fin 2, peak = Fin 1\<rparr>]
   = NaN"
  by (simp add: calculateRankPeakCorrelation_def correlation_quotient_def js_of_nat_def jsub_def
      inf_of_sign_def sum_js_def sum_sq_js_def sum_prod_js_def at_num_def upt_rec)

text \<open>The two \<open>pearsonCorrelation\<close> methods test for NaN and return 0 on the same data.\<close>

lemma pearsonCorrelation_zero_variance_example:
  "pearsonCorrelation [Fin 1, Fin 2] [Fin 1, Fin 1] = Fin 0"
  by (simp add: pearsonCorrelation_def correlation_quotient_def js_of_nat_def jsub_def
      inf_of_sign_def sum_js_def sum_sq_js_def sum_prod_js_def at_num_def upt_rec)

lemma csv_pearsonCorrelation_zero_variance_example:
  "csv_pearsonCorrelation [Fin 1, Fin 2] [Fin 1, Fin 1] = Fin 0"
  by (simp add: csv_pearsonCorrelation_def correlation_quotient_def js_of_nat_def jsub_def
      inf_of_sign_def sum_js_def sum_sq_js_def sum_prod_js_def at_num_def upt_rec)

subsection \<open>The earliest film over $1.5bn\<close>

lemma earliest_year_single: "earliest_year [x] = year_num (year x)"
  by (simp add: earliest_year_def)

lemma earliest_year_snoc:
  "earliest_year (x # ys @ [y]) = min (year_num (year y)) (earliest_year (x # ys))"
proof -
  have "set (map (\<lambda>g. year_num (year g)) (x # ys @ [y]))
        = insert (year_num (year y)) (set (map (\<lambda>g. year_num (year g)) (x # ys)))"
    by auto
  then show ?thesis
    unfolding earliest_year_def by (simp del: set_map list.map)
qed

lemma foldl_earlier_year:
  "year_num (year (foldl earlier x xs)) = earliest_year (x # xs)"
proof (induction xs rule: rev_induct)
  case Nil
  show ?case by (simp add: earliest_year_single)
next
  case (snoc y ys)
  have "foldl earlier x (ys @ [y]) = earlier (foldl earlier x ys) y" by simp
  also have "year_num (year (earlier (foldl earlier x ys) y))
             = min (year_num (year y)) (year_num (year (foldl earlier x ys)))"
    unfolding earlier_def by (simp add: min_def)
  finally show ?case
    using snoc.IH by (simp only: earliest_year_snoc)
qed

lemma foldl_earlier_last:
  "foldl earlier x xs =
     last (filter (\<lambda>g. year_num (year g) = earliest_year (x # xs)) (x # xs))"
proof (induction xs rule: rev_induct)
  case Nil
  show ?case by (simp add: earliest_year_single)
next
  case (snoc y ys)
  let ?r = "foldl earlier x ys"
  have m: "year_num (year ?r) = earliest_year (x # ys)"
    by (rule foldl_earlier_year)
  show ?case
  proof (cases "year_num (year ?r) < year_num (year y)")
    case True
    then have e: "foldl earlier x (ys @ [y]) = ?r" by (simp add: earlier_def)
    from True m have mm: "earliest_year (x # ys @ [y]) = earliest_year (x # ys)"
      by (simp add: earliest_year_snoc)
    from True m have ne: "year_num (year y) \<noteq> earliest_year (x # ys)" by simp
    have "filter (\<lambda>g. year_num (year g) = earliest_year (x # ys)) (x # ys @ [y])
          = filter (\<lambda>g. year_num (year g) = earliest_year (x # ys)) (x # ys)"
      using ne by simp
    then show ?thesis using e snoc.IH unfolding mm by simp
  next
    case False
    then have e: "foldl earlier x (ys @ [y]) = y" by (simp add: earlier_def)
    from False m have mm: "earliest_year (x # ys @ [y]) = year_num (year y)"
      by (simp add: earliest_year_snoc)
    show ?thesis unfolding e mm by simp
  qed
qed

lemma digits_of_1997: "digits_of_nat 1997 = ''1997''"
  by code_simp

text \<open>
  Claim C10, as stated, fails: when two films over $1.5bn share the earliest year, the
  answer is not the first of them.  For A (1997), B (1997) in this order the answer is
  \<open>B (1997)\<close>: on equal years the comparison \<open>prev.year < current.year\<close> is false and the
  reduction takes the current film.
\<close>

theorem findEarliest_tie_takes_later_film:
  "findEarliest1_5BillionFilm
     [\<lparr>title = ''A'', revenue = Fin 2000000000, year = Some 1997, rank = Fin 1, peak = Fin 1\<rparr>,
      \<lparr>title = ''B'', revenue = Fin 1600000000, year = Some 1997, rank = Fin 2, peak = Fin 2\<rparr>]
   = ''B (1997)''"
  by (simp add: findEarliest1_5BillionFilm_def over1_5bn_def reduce1_def earlier_def jge_def jle_def
      year_truthy_def year_num_def year_text_def digits_of_1997)

text \<open>
  Claim C10, amended.  If some film has a revenue of at least 1.5bn and a year, the answer
  is \<open><title> (<year>)\<close> of the last film, in row order, among those of the earliest
  year.
\<close>

theorem earliest_is_last_of_earliest_year:
  assumes "over1_5bn data \<noteq> []"
  shows "findEarliest1_5BillionFilm data =
     (let f = last (filter (\<lambda>g. year_num (year g) = earliest_year (over1_5bn data))
                      (over1_5bn data))
      in title f @ '' ('' @ year_text (year f) @ '')'')"
proof -
  obtain x xs where c: "over1_5bn data = x # xs"
    using assms by (cases "over1_5bn data") auto
  have "reduce1 earlier (x # xs) =
        last (filter (\<lambda>g. year_num (year g) = earliest_year (x # xs)) (x # xs))"
    using foldl_earlier_last [of x xs] by (simp add: reduce1_def)
  then show ?thesis
    by (simp add: findEarliest1_5BillionFilm_def c Let_def)
qed

theorem earliest_is_last_of_earliest_year_witness:
  "over1_5bn
     [\<lparr>title = ''A'', revenue = Fin 2000000000, year = Some 1997, rank = Fin 1, peak = Fin 1\<rparr>,
      \<lparr>title = ''B'', revenue = Fin 1600000000, year = Some 1997, rank = Fin 2, peak = Fin 2\<rparr>,
      \<lparr>title = ''C'', revenue = Fin 1700000000, year = Some 2009, rank = Fin 3, peak = Fin 3\<rparr>] \<noteq> [] \<and>
   findEarliest1_5BillionFilm
     [\<lparr>title = ''A'', revenue = Fin 2000000000, year = Some 1997, rank = Fin 1, peak = Fin 1\<rparr>,
      \<lparr>title = ''B'', revenue = Fin 1600000000, year = Some 1997, rank = Fin 2, peak = Fin 2\<rparr>,
      \<lparr>title = ''C'', revenue = Fin 1700000000, year = Some 2009, rank = Fin 3, peak = Fin 3\<rparr>]
   = ''B (1997)''"
proof -
  let ?data = "[\<lparr>title = ''A'', revenue = Fin 2000000000, year = Some 1997, rank = Fin 1, peak = Fin 1\<rparr>,
      \<lparr>title = ''B'', revenue = Fin 1600000000, year = Some 1997, rank = Fin 2, peak = Fin 2\<rparr>,
      \<lparr>title = ''C'', revenue = Fin 1700000000, year = Some 2009, rank = Fin 3, peak = Fin 3\<rparr>]"
  have o: "over1_5bn ?data = ?data"
    by (simp add: over1_5bn_def jge_def jle_def year_truthy_def)
  then have ne: "over1_5bn ?data \<noteq> []" by simp
  show ?thesis
    using earliest_is_last_of_earliest_year [OF ne] ne
    by (simp add: o earliest_year_def year_num_def year_text_def digits_of_1997)
qed


subsection \<open>The keyword classifier\<close>

lemma startsWith_iff: "startsWith s p \<longleftrightarrow> (\<exists>t. s = p @ t)"
  by (induction s p rule: startsWith.induct) auto

lemma str_includes_iff: "str_includes s p \<longleftrightarrow> (\<exists>a b. s = a @ p @ b)"
proof (induction s)
  case Nil
  show ?case by auto
next
  case (Cons c cs)
  show ?case
  proof
    assume "str_includes (c # cs) p"
    then consider "startsWith (c # cs) p" | "str_includes cs p" by auto
    then show "\<exists>a b. c # cs = a @ p @ b"
    proof cases
      case 1
      then obtain t where "c # cs = p @ t" by (auto simp: startsWith_iff)
      then have "c # cs = [] @ p @ t" by simp
      then show ?thesis by blast
    next
      case 2
      then obtain a b where "cs = a @ p @ b" using Cons.IH by auto
      then have "c # cs = (c # a) @ p @ b" by simp
      then show ?thesis by blast
    qed
  next
    assume "\<exists>a b. c # cs = a @ p @ b"
    then obtain a b where ab: "c # cs = a @ p @ b" by auto
    show "str_includes (c # cs) p"
    proof (cases a)
      case Nil
      then have "startsWith (c # cs) p" using ab by (auto simp: startsWith_iff)
      then show ?thesis by simp
    next
      case (Cons a0 as)
      then have "cs = as @ p @ b" using ab by simp
      then have "str_includes cs p" using Cons.IH by blast
      then show ?thesis by simp
    qed
  qed
qed

lemma str_includes_left: "str_includes s (p @ q) \<Longrightarrow> str_includes s p"
  unfolding str_includes_iff by (metis append.assoc)

lemma str_includes_right: "str_includes s (p @ q) \<Longrightarrow> str_includes s q"
  unfolding str_includes_iff by (metis append.assoc)

text \<open>
  Claim C8, as stated, fails: a task text with the three substrings that also asks
  \<open>how many\<close> is classified as a count, not as a correlation.
\<close>

theorem fallbackAnalysis_how_many_is_count:
  "str_includes (toLowerCase ''How many highest-grossing films? Correlation? Scatterplot?'')
     ''highest-grossing films'' \<and>
   str_includes (toLowerCase ''How many highest-grossing films? Correlation? Scatterplot?'')
     ''correlation'' \<and>
   str_includes (toLowerCase ''How many highest-grossing films? Correlation? Scatterplot?'')
     ''scatterplot'' \<and>
   analysisType (fallbackAnalysis ''How many highest-grossing films? Correlation? Scatterplot?'')
     = Count"
  by code_simp

text \<open>
  Claim C8, amended.  For a task text that contains, in lower case, \<open>highest-grossing films\<close>,
  \<open>correlation\<close> and \<open>scatterplot\<close>, the keyword strategy yields the data source
  \<open>wikipedia\<close> and \<open>visualizationNeeded = true\<close>; the analysis type is \<open>count\<close> if the
  text also contains \<open>how many\<close> or \<open>count\<close>, otherwise \<open>regression\<close> if it contains
  \<open>regression\<close>, and \<open>correlation\<close> otherwise.
\<close>

theorem fallbackAnalysis_films_correlation_scatterplot:
  assumes f: "str_includes (toLowerCase taskDescription) ''highest-grossing films''"
    and c: "str_includes (toLowerCase taskDescription) ''correlation''"
    and s: "str_includes (toLowerCase taskDescription) ''scatterplot''"
  shows "dataSource (fallbackAnalysis taskDescription) = Wikipedia \<and>
         visualizationNeeded (fallbackAnalysis taskDescription) \<and>
         analysisType (fallbackAnalysis taskDescription) =
           (if str_includes (toLowerCase taskDescription) ''how many'' \<or>
               str_includes (toLowerCase taskDescription) ''count'' then Count
            else if str_includes (toLowerCase taskDescription) ''regression'' then Regression
            else Correlation)"
proof -
  have "str_includes (toLowerCase taskDescription) (''highest-grossing'' @ '' films'')"
    using f by simp
  then have hg: "str_includes (toLowerCase taskDescription) ''highest-grossing''"
    by (rule str_includes_left)
  have "str_includes (toLowerCase taskDescription) (''scatter'' @ ''plot'')"
    using s by simp
  then have sc: "str_includes (toLowerCase taskDescription) ''scatter''"
    by (rule str_includes_left)
  show ?thesis
    using hg sc c by (simp add: fallbackAnalysis_def Let_def)
qed


theorem fallbackAnalysis_films_correlation_scatterplot_witness:
  "str_includes (toLowerCase ''Highest-grossing films: correlation and scatterplot'')
     ''highest-grossing films'' \<and>
   str_includes (toLowerCase ''Highest-grossing films: correlation and scatterplot'')
     ''correlation'' \<and>
   str_includes (toLowerCase ''Highest-grossing films: correlation and scatterplot'')
     ''scatterplot'' \<and>
   dataSource (fallbackAnalysis ''Highest-grossing films: correlation and scatterplot'') = Wikipedia \<and>
   visualizationNeeded (fallbackAnalysis ''Highest-grossing films: correlation and scatterplot'') \<and>
   analysisType (fallbackAnalysis ''Highest-grossing films: correlation and scatterplot'')
     = Correlation"
proof -
  let ?t = "''Highest-grossing films: correlation and scatterplot''"
  have f: "str_includes (toLowerCase ?t) ''highest-grossing films''" by code_simp
  have c: "str_includes (toLowerCase ?t) ''correlation''" by code_simp
  have s: "str_includes (toLowerCase ?t) ''scatterplot''" by code_simp
  have n1: "\<not> str_includes (toLowerCase ?t) ''how many''" by code_simp
  have n2: "\<not> str_includes (toLowerCase ?t) ''count''" by code_simp
  have n3: "\<not> str_includes (toLowerCase ?t) ''regression''" by code_simp
  show ?thesis
    using fallbackAnalysis_films_correlation_scatterplot [OF f c s] f c s n1 n2 n3 by simp
qed

subsection \<open>Cleaning the films table\<close>

lemma truthy_opt_iff: "truthy_opt v \<longleftrightarrow> v \<notin> {None, Some (Fin 0), Some NaN}"
proof (cases v)
  case None
  then show ?thesis by (simp add: truthy_opt_def)
next
  case (Some a)
  then show ?thesis by (cases a) (simp_all add: truthy_opt_def)
qed

lemma truthy_str_iff: "truthy_str v \<longleftrightarrow> v \<notin> {None, Some []}"
  by (cases v) (auto simp: truthy_str_def)

lemma cleanLoop_length_ge: "length acc \<le> length (cleanLoop acc rows)"
proof (induction rows arbitrary: acc)
  case Nil
  show ?case by simp
next
  case (Cons r rest)
  show ?case
  proof (cases "cleanRow (length acc) r")
    case None
    then show ?thesis using Cons.IH [of acc] by simp
  next
    case (Some f)
    then show ?thesis using Cons.IH [of "acc @ [f]"] by simp
  qed
qed

lemma cleanLoop_append: "cleanLoop acc (xs @ ys) = cleanLoop (cleanLoop acc xs) ys"
  by (induction xs arbitrary: acc) (auto split: option.splits)

lemma cleanRow_None_iff: "cleanRow n r = None \<longleftrightarrow> \<not> essential_present r"
  by (simp add: cleanRow_def essential_present_def truthy_opt_iff truthy_str_iff)

lemma cleanRow_Some_fields:
  "cleanRow n r = Some f \<Longrightarrow>
     title f = the (titleValue r) \<and> revenue f = the (revenueValue r) \<and> year f = yearValue r"
  by (auto simp: cleanRow_def split: if_splits)

lemma cleanLoop_essential:
  "map (\<lambda>f. (title f, revenue f, year f)) (cleanLoop acc rows) =
   map (\<lambda>f. (title f, revenue f, year f)) acc @
   map (\<lambda>r. (the (titleValue r), the (revenueValue r), yearValue r)) (filter essential_present rows)"
proof (induction rows arbitrary: acc)
  case Nil
  show ?case by simp
next
  case (Cons r rest)
  show ?case
  proof (cases "cleanRow (length acc) r")
    case None
    then have "\<not> essential_present r" by (simp add: cleanRow_None_iff)
    then show ?thesis using None Cons.IH [of acc] by simp
  next
    case (Some f)
    then have e: "essential_present r" using cleanRow_None_iff [of "length acc" r] by simp
    show ?thesis
      using Some e cleanRow_Some_fields [OF Some] Cons.IH [of "acc @ [f]"] by simp
  qed
qed

text \<open>
  Claim C5, as stated, fails: a row whose title is \<open>A\<close> and whose revenue cell reads
  \<open>0\<close> has both essential fields non-null (the revenue is the number 0), yet no record is
  emitted for it, because the test \<open>revenueValue && titleValue\<close> takes 0 for absent.
\<close>

theorem cleanFilmsData_drops_zero_revenue:
  "titleValue [(''Title'', ''A''), (''Gross'', ''0'')] = Some ''A'' \<and>
   revenueValue [(''Title'', ''A''), (''Gross'', ''0'')] = Some (Fin 0) \<and>
   cleanFilmsData [[(''Title'', ''A''), (''Gross'', ''0'')]] = []"
proof -
  let ?r = "[(''Title'', ''A''), (''Gross'', ''0'')]"
  have t: "titleValue ?r = Some ''A''" by code_simp
  have m: "revenueMatch ?r = Some ''0''" by code_simp
  have d: "nat_of_digits ''0'' = 0" by code_simp
  have v: "revenueValue ?r = Some (Fin 0)"
    by (simp add: revenueValue_def m parseInt_def d)
  have "cleanRow 0 ?r = None"
    by (simp add: cleanRow_def v truthy_opt_def)
  then show ?thesis using t v by (simp add: cleanFilmsData_def)
qed

text \<open>
  Claim C5, amended.  The records emitted are, in row order, those of the rows whose
  extracted revenue is neither \<open>null\<close>, 0 nor NaN and whose title is neither \<open>null\<close> nor
  the empty string; each carries the title, revenue and year extracted from its row.
  Every other row is left out without an error.
\<close>

theorem cleanFilmsData_keeps_truthy_essentials:
  "map (\<lambda>f. (title f, revenue f, year f)) (cleanFilmsData rows) =
   map (\<lambda>r. (the (titleValue r), the (revenueValue r), yearValue r))
     (filter (\<lambda>r. revenueValue r \<notin> {None, Some (Fin 0), Some NaN} \<and>
                   titleValue r \<notin> {None, Some []}) rows)"
proof -
  have "essential_present = (\<lambda>r. revenueValue r \<notin> {None, Some (Fin 0), Some NaN} \<and>
                   titleValue r \<notin> {None, Some []})"
    by (rule ext) (simp add: essential_present_def)
  then show ?thesis
    using cleanLoop_essential [of "[]" rows] by (simp add: cleanFilmsData_def)
qed

theorem cleanFilmsData_keeps_truthy_essentials_witness:
  "map (\<lambda>f. (title f, revenue f, year f))
     (cleanFilmsData
        [[(''Film'', ''A''), (''Gross'', ''$5'')], [(''Film'', ''B''), (''Gross'', ''n/a'')],
         [(''Film'', ''Z''), (''Gross'', ''0'')], [(''Film'', []), (''Gross'', ''7'')]])
   = [(''A'', Fin 5, None)]"
proof -
  let ?a = "[(''Film'', ''A''), (''Gross'', ''$5'')]"
  let ?b = "[(''Film'', ''B''), (''Gross'', ''n/a'')]"
  let ?z = "[(''Film'', ''Z''), (''Gross'', ''0'')]"
  let ?e = "[(''Film'', []), (''Gross'', ''7'')]"
  have ta: "titleValue ?a = Some ''A''" by code_simp
  have ya: "yearValue ?a = None" by code_simp
  have ma: "revenueMatch ?a = Some ''5''" by code_simp
  have mb: "revenueMatch ?b = None" by code_simp
  have mz: "revenueMatch ?z = Some ''0''" by code_simp
  have te: "titleValue ?e = Some []" by code_simp
  have d5: "nat_of_digits ''5'' = 5" by code_simp
  have d0: "nat_of_digits ''0'' = 0" by code_simp
  have va: "revenueValue ?a = Some (Fin 5)" by (simp add: revenueValue_def ma parseInt_def d5)
  have vb: "revenueValue ?b = None" by (simp add: revenueValue_def mb)
  have vz: "revenueValue ?z = Some (Fin 0)" by (simp add: revenueValue_def mz parseInt_def d0)
  show ?thesis
    using cleanFilmsData_keeps_truthy_essentials [of "[?a, ?b, ?z, ?e]"]
    by (simp add: ta ya va vb vz te)
qed

lemma first_value_no_key:
  "\<forall>k\<in>set (map fst r). \<not> p k \<Longrightarrow> first_value p r = None"
proof -
  assume "\<forall>k\<in>set (map fst r). \<not> p k"
  then have "filter (\<lambda>kv. p (fst kv)) r = []" by (auto simp: filter_empty_conv)
  then show ?thesis by (simp add: first_value_def)
qed

lemma rankValue_no_key:
  "\<forall>k\<in>set (map fst r). \<not> isRankKey k \<Longrightarrow> rankValue r = None"
  by (simp add: rankValue_def rankMatch_def first_value_no_key)

lemma cleanRow_rank_no_key:
  "\<forall>k\<in>set (map fst r). \<not> isRankKey k \<Longrightarrow> cleanRow n r = Some f \<Longrightarrow> rank f = js_of_nat (n + 1)"
  by (auto simp: cleanRow_def rankValue_no_key or_else_def split: if_splits)

lemma cleanLoop_rank_order:
  assumes "\<forall>r\<in>set rows. \<forall>k\<in>set (map fst r). \<not> isRankKey k"
  shows "map rank (cleanLoop acc rows) =
         map rank acc @ map js_of_nat [length acc + 1 ..< length (cleanLoop acc rows) + 1]"
  using assms
proof (induction rows arbitrary: acc)
  case Nil
  show ?case by simp
next
  case (Cons r rest)
  then have nk: "\<forall>k\<in>set (map fst r). \<not> isRankKey k"
    and rest: "\<forall>r\<in>set rest. \<forall>k\<in>set (map fst r). \<not> isRankKey k" by simp_all
  show ?case
  proof (cases "cleanRow (length acc) r")
    case None
    then show ?thesis using Cons.IH [OF rest, of acc] by simp
  next
    case (Some f)
    have rf: "rank f = js_of_nat (length acc + 1)"
      by (rule cleanRow_rank_no_key [OF nk Some])
    have ge: "length acc + 1 \<le> length (cleanLoop (acc @ [f]) rest)"
      using cleanLoop_length_ge [of "acc @ [f]" rest] by simp
    have "[length acc + 1 ..< length (cleanLoop (acc @ [f]) rest) + 1] =
          (length acc + 1) # [length acc + 2 ..< length (cleanLoop (acc @ [f]) rest) + 1]"
      using ge by (simp add: upt_conv_Cons)
    then show ?thesis
      using Some rf Cons.IH [OF rest, of "acc @ [f]"] by simp
  qed
qed

text \<open>
  Claim C7.  When no header of any row contains \<open>rank\<close> or \<open>position\<close>, the ranks of the
  emitted records are 1, 2, 3, ... in the order of emission: each record's rank is its
  1-based position among the retained records.
\<close>

theorem cleanFilmsData_rank_is_insertion_order:
  assumes "\<forall>r\<in>set rows. \<forall>k\<in>set (map fst r). \<not> isRankKey k"
  shows "map rank (cleanFilmsData rows) = map js_of_nat [1 ..< length (cleanFilmsData rows) + 1]"
  using cleanLoop_rank_order [OF assms, of "[]"] by (simp add: cleanFilmsData_def)

theorem cleanFilmsData_rank_is_insertion_order_witness:
  "list_all (\<lambda>r. list_all (\<lambda>k. \<not> isRankKey k) (map fst r))
     [[(''Film'', ''A''), (''Gross'', ''$5'')], [(''Film'', ''B''), (''Gross'', ''n/a'')],
      [(''Film'', ''C''), (''Gross'', ''7'')]] \<and>
   map rank (cleanFilmsData
     [[(''Film'', ''A''), (''Gross'', ''$5'')], [(''Film'', ''B''), (''Gross'', ''n/a'')],
      [(''Film'', ''C''), (''Gross'', ''7'')]]) = [Fin 1, Fin 2]"
proof -
  let ?a = "[(''Film'', ''A''), (''Gross'', ''$5'')]"
  let ?b = "[(''Film'', ''B''), (''Gross'', ''n/a'')]"
  let ?c = "[(''Film'', ''C''), (''Gross'', ''7'')]"
  have nk: "list_all (\<lambda>r. list_all (\<lambda>k. \<not> isRankKey k) (map fst r)) [?a, ?b, ?c]"
    by code_simp
  then have h: "\<forall>r\<in>set [?a, ?b, ?c]. \<forall>k\<in>set (map fst r). \<not> isRankKey k"
    by (simp only: list_all_iff)
  have ta: "titleValue ?a = Some ''A''" by code_simp
  have ma: "revenueMatch ?a = Some ''5''" by code_simp
  have mb: "revenueMatch ?b = None" by code_simp
  have tc: "titleValue ?c = Some ''C''" by code_simp
  have mc: "revenueMatch ?c = Some ''7''" by code_simp
  have d5: "nat_of_digits ''5'' = 5" by code_simp
  have d7: "nat_of_digits ''7'' = 7" by code_simp
  have a: "cleanRow 0 ?a \<noteq> None"
    by (simp add: cleanRow_def revenueValue_def ma parseInt_def d5 ta truthy_opt_def truthy_str_def)
  have b: "cleanRow n ?b = None" for n
    by (simp add: cleanRow_def revenueValue_def mb truthy_opt_def)
  have c: "cleanRow n ?c \<noteq> None" for n
    by (simp add: cleanRow_def revenueValue_def mc parseInt_def d7 tc truthy_opt_def truthy_str_def)
  from a obtain fa where fa: "cleanRow 0 ?a = Some fa" by auto
  from c [of "Suc 0"] obtain fc where fc: "cleanRow (Suc 0) ?c = Some fc" by auto
  have len: "length (cleanFilmsData [?a, ?b, ?c]) = 2"
    by (simp add: cleanFilmsData_def fa b fc)
  show ?thesis
    using cleanFilmsData_rank_is_insertion_order [OF h] nk
    by (simp add: len js_of_nat_def upt_rec)
qed

text \<open>
  Claim C9.  When the peak extracted from a retained row is absent (no peak column, no
  digits in the cell, or the number 0), the record's peak equals its rank: the extracted
  rank if that is a non-zero number, and otherwise the 1-based position of the record among
  the retained ones.
\<close>

theorem peak_falls_back_to_rank_then_order:
  assumes "\<not> truthy_opt (peakValue r)"
    and "cleanRow (length (cleanFilmsData pre)) r = Some f"
  shows "cleanFilmsData (pre @ [r]) = cleanFilmsData pre @ [f] \<and>
         peak f = rank f \<and>
         peak f = (if truthy_opt (rankValue r) then the (rankValue r)
                   else js_of_nat (length (cleanFilmsData pre) + 1))"
proof -
  have "cleanFilmsData (pre @ [r]) = cleanLoop (cleanFilmsData pre) [r]"
    by (simp add: cleanFilmsData_def cleanLoop_append)
  then have a: "cleanFilmsData (pre @ [r]) = cleanFilmsData pre @ [f]"
    using assms(2) by simp
  have b: "peak f = rank f"
    using assms by (auto simp: cleanRow_def or_else_def truthy_opt_def split: if_splits option.splits)
  have c: "rank f = (if truthy_opt (rankValue r) then the (rankValue r)
                   else js_of_nat (length (cleanFilmsData pre) + 1))"
    using assms(2) by (auto simp: cleanRow_def or_else_def truthy_opt_def split: if_splits option.splits)
  show ?thesis using a b c by simp
qed


theorem peak_falls_back_to_rank_then_order_witness:
  "\<not> truthy_opt (peakValue [(''Film'', ''A''), (''Rank'', ''7''), (''Peak'', ''n/a''), (''Gross'', ''5'')]) \<and>
   cleanFilmsData [[(''Film'', ''A''), (''Rank'', ''7''), (''Peak'', ''n/a''), (''Gross'', ''5'')]] =
     [\<lparr>title = ''A'', revenue = Fin 5, year = None, rank = Fin 7, peak = Fin 7\<rparr>]"
proof -
  let ?r = "[(''Film'', ''A''), (''Rank'', ''7''), (''Peak'', ''n/a''), (''Gross'', ''5'')]"
  have t: "titleValue ?r = Some ''A''" by code_simp
  have m: "revenueMatch ?r = Some ''5''" by code_simp
  have y: "yearValue ?r = None" by code_simp
  have rk: "rankMatch ?r = Some ''7''" by code_simp
  have pk: "peakMatch ?r = None" by code_simp
  have d5: "nat_of_digits ''5'' = 5" by code_simp
  have d7: "nat_of_digits ''7'' = 7" by code_simp
  have p: "\<not> truthy_opt (peakValue ?r)"
    by (simp add: peakValue_def pk truthy_opt_def)
  have e: "cleanFilmsData [] = []" by (simp add: cleanFilmsData_def)
  have c: "cleanRow (length (cleanFilmsData [])) ?r =
           Some \<lparr>title = ''A'', revenue = Fin 5, year = None, rank = Fin 7, peak = Fin 7\<rparr>"
    by (simp add: e cleanRow_def revenueValue_def rankValue_def peakValue_def m rk pk y t
        parseInt_def d5 d7 truthy_opt_def truthy_str_def or_else_def)
  show ?thesis
    using peak_falls_back_to_rank_then_order [OF p c] p by (simp add: e)
qed

subsection \<open>Descriptive statistics\<close>


















subsection \<open>The three resolution tiers\<close>





subsection \<open>Errors of the two domain handlers\<close>

text \<open>
  Claim C4, as stated, fails for the Wikipedia path: when the page has no
  \<open>table.wikitable\<close>, \<open>processWikipediaTask\<close> does not return a sample value; it throws
  \<open>Failed to process Wikipedia data: No wikitable found on the page\<close> to its caller.
\<close>

theorem processWikipediaTask_propagates_error:
  "processWikipediaTask VisualizationService (\<lambda>w h c. Inr []) (\<lambda>url. Inr [])
     ''highest-grossing films'' (fallbackAnalysis ''highest-grossing films'')
   = Inl (Error ''Failed to process Wikipedia data: No wikitable found on the page'')"
  by (simp add: processWikipediaTask_def wikipedia_body_def scrapeWikipediaTable_def)

text \<open>
  Claim C4, amended.  The court-data path never fails: \<open>processCourtDataTask\<close> always
  returns a value, and when the connection cannot be opened the value is the fixed sample
  answer of \<open>getSampleCourtData\<close>; a failed query for the top court is answered with
  \<open>Delhi High Court\<close>, and a failed query for the delays with the regression of the fixed
  sample data.  The Wikipedia path has no sample value: an error of the scrape is caught by
  \<open>processWikipediaTask\<close> and thrown again to the caller, its message prefixed with
  \<open>Failed to process Wikipedia data: \<close>.
\<close>

theorem domain_errors_at_the_boundary:
  "(\<exists>v. processCourtDataTask svc render env taskDescription taskAnalysis = Inr v) \<and>
   (connection env = Inl e \<longrightarrow>
      processCourtDataTask svc render env taskDescription taskAnalysis
        = Inr (getSampleCourtData taskDescription taskAnalysis)) \<and>
   (topCourtQuery env = Inl e \<longrightarrow> findTopCourtByCases env = ''Delhi High Court'') \<and>
   (regressionQuery env = Inl e \<longrightarrow>
      calculateRegressionSlope svc render env = sampleRegression svc render) \<and>
   (scrapeWikipediaTable fetch (determineWikipediaUrl taskDescription) = Inl (Error message) \<longrightarrow>
      processWikipediaTask svc render fetch taskDescription taskAnalysis
        = Inl (Error (''Failed to process Wikipedia data: '' @ message)))"
proof (intro conjI impI)
  show "\<exists>v. processCourtDataTask svc render env taskDescription taskAnalysis = Inr v"
    by (cases "court_body svc render env taskDescription taskAnalysis")
       (simp_all add: processCourtDataTask_def)
next
  assume "connection env = Inl e"
  then have "court_body svc render env taskDescription taskAnalysis = Inl e"
    by (simp add: court_body_def)
  then show "processCourtDataTask svc render env taskDescription taskAnalysis
        = Inr (getSampleCourtData taskDescription taskAnalysis)"
    by (simp add: processCourtDataTask_def)
next
  assume "topCourtQuery env = Inl e"
  then show "findTopCourtByCases env = ''Delhi High Court''"
    by (simp add: findTopCourtByCases_def)
next
  assume "regressionQuery env = Inl e"
  then show "calculateRegressionSlope svc render env = sampleRegression svc render"
    by (simp add: calculateRegressionSlope_def)
next
  assume "scrapeWikipediaTable fetch (determineWikipediaUrl taskDescription) = Inl (Error message)"
  then have "wikipedia_body svc render fetch taskDescription taskAnalysis = Inl (Error message)"
    by (simp add: wikipedia_body_def)
  then show "processWikipediaTask svc render fetch taskDescription taskAnalysis
        = Inl (Error (''Failed to process Wikipedia data: '' @ message))"
    by (simp add: processWikipediaTask_def)
qed

theorem domain_errors_at_the_boundary_witness:
  "processCourtDataTask VisualizationService (\<lambda>w h c. Inr [])
     \<lparr>connection = Inl (Error ''connection refused''),
      topCourtQuery = Inl (Error ''connection refused''),
      regressionQuery = Inl (Error ''connection refused'')\<rparr>
     ''Which high court disposed the most cases?''
     (fallbackAnalysis ''Which high court disposed the most cases?'')
   = Inr (JStr ''Delhi High Court'') \<and>
   processWikipediaTask VisualizationService (\<lambda>w h c. Inr []) (\<lambda>url. Inl (Error ''timeout''))
     ''films'' (fallbackAnalysis ''films'')
   = Inl (Error ''Failed to process Wikipedia data: timeout'')"
proof -
  let ?env = "\<lparr>connection = Inl (Error ''connection refused''),
               topCourtQuery = Inl (Error ''connection refused''),
               regressionQuery = Inl (Error ''connection refused'')\<rparr> :: court_env"
  have c: "connection ?env = Inl (Error ''connection refused'')" by simp
  have i: "str_includes (toLowerCase ''Which high court disposed the most cases?'')
             ''disposed the most cases''" by code_simp
  have s: "getSampleCourtData ''Which high court disposed the most cases?''
             (fallbackAnalysis ''Which high court disposed the most cases?'')
           = JStr ''Delhi High Court''"
    by (simp add: getSampleCourtData_def i)
  have f: "scrapeWikipediaTable (\<lambda>url. Inl (Error ''timeout'')) (determineWikipediaUrl ''films'')
           = Inl (Error ''timeout'')"
    by (simp add: scrapeWikipediaTable_def)
  show ?thesis
    using domain_errors_at_the_boundary [of VisualizationService "\<lambda>w h c. Inr []" ?env
        "''Which high court disposed the most cases?''"
        "fallbackAnalysis ''Which high court disposed the most cases?''"
        "Error ''connection refused''" "\<lambda>url. Inl (Error ''timeout'')" "''timeout''"]
      domain_errors_at_the_boundary [of VisualizationService "\<lambda>w h c. Inr []" ?env
        "''films''" "fallbackAnalysis ''films''"
        "Error ''connection refused''" "\<lambda>url. Inl (Error ''timeout'')" "''timeout''"]
      c s f
    by simp
qed

section \<open>Further properties\<close>

subsection \<open>The regression on a line\<close>

text \<open>On the points (1,1), (2,2), (3,3) the regression has slope 1 and intercept 0.\<close>

theorem calculateRegression_identity_line:
  "calculateRegression
     [\<lparr>px = Fin 1, py = Fin 1\<rparr>, \<lparr>px = Fin 2, py = Fin 2\<rparr>, \<lparr>px = Fin 3, py = Fin 3\<rparr>]
   = \<lparr>slope = Fin 1, intercept = Fin 0\<rparr>"
  by (simp add: calculateRegression_def js_of_nat_def jsub_def inf_of_sign_def)

subsection \<open>A chart from two valid points\<close>

lemma renderWithinBudget_ok:
  assumes "\<forall>w h. \<exists>b. render w h cfg = Inr b"
  shows "\<exists>l b. renderWithinBudget svc render cfg = (l, Inr b)"
proof -
  obtain b1 where b1: "render (width svc) (height svc) cfg = Inr b1" using assms by blast
  obtain b2 where b2: "render 600 400 cfg = Inr b2" using assms by blast
  obtain b3 where b3: "render 400 300 cfg = Inr b3" using assms by blast
  show ?thesis
    by (simp add: renderWithinBudget_def renderToBuffer_def b1 b2 b3)
qed

text \<open>
  When the canvas never fails, a scatter plot of arrays of equal length with at least two
  valid points is a non-empty string.
\<close>

theorem createScatterPlot_valid_points_nonempty:
  assumes "length xData = length yData"
    and "2 \<le> length (cleanPoints xData yData)"
    and "\<forall>w h c. \<exists>b. render w h c = Inr b"
  shows "snd (createScatterPlot svc render xData yData xLabel yLabel title_text) \<noteq> []"
proof -
  let ?cfg = "scatterConfiguration (cleanPoints xData yData) xLabel yLabel title_text"
  have "length (cleanPoints xData yData) \<le> length (zip xData yData)"
    unfolding cleanPoints_def List.map_filter_def length_map by (rule length_filter_le)
  then have two: "\<not> length xData < 2" using assms(1,2) by simp
  obtain l b where r: "renderWithinBudget svc render ?cfg = (l, Inr b)"
    using renderWithinBudget_ok [of render ?cfg svc] assms(3) by blast
  show ?thesis
    using assms(1,2) two r by (simp add: createScatterPlot_def Let_def)
qed


theorem createScatterPlot_valid_points_nonempty_witness:
  "length [Some (Fin 1), Some (Fin 2)] = length [Some (Fin 3), Some (Fin 5)] \<and>
   2 \<le> length (cleanPoints [Some (Fin 1), Some (Fin 2)] [Some (Fin 3), Some (Fin 5)]) \<and>
   snd (createScatterPlot VisualizationService (\<lambda>w h c. Inr [1, 2, 3])
          [Some (Fin 1), Some (Fin 2)] [Some (Fin 3), Some (Fin 5)] ''x'' ''y'' ''t'') \<noteq> []"
proof -
  have l: "length [Some (Fin 1), Some (Fin 2)] = length [Some (Fin 3), Some (Fin 5)]" by simp
  have c: "2 \<le> length (cleanPoints [Some (Fin 1), Some (Fin 2)] [Some (Fin 3), Some (Fin 5)])"
    by (simp add: cleanPoints_def List.map_filter_def)
  have r: "\<forall>w h c. \<exists>b. (Inr [1, 2, 3] :: error + byte list) = Inr b" by simp
  show ?thesis
    using createScatterPlot_valid_points_nonempty
      [of "[Some (Fin 1), Some (Fin 2)]" "[Some (Fin 3), Some (Fin 5)]" "\<lambda>w h c. Inr [1, 2, 3]",
       OF l c r] l c
    by simp
qed

subsection \<open>The films answers on a two-row table\<close>

lemma digit_values:
  "digit_value CHR ''0'' = 0 \<and> digit_value CHR ''1'' = 1 \<and> digit_value CHR ''2'' = 2 \<and>
   digit_value CHR ''3'' = 3 \<and> digit_value CHR ''5'' = 5 \<and> digit_value CHR ''6'' = 6"
  by code_simp

text \<open>
  For the table with the rows (A, $2,500,000,000, 1995, rank 1, peak 1) and
  (B, $1,600,000,000, 2001, rank 2, peak 3), the number of films of at least $2bn released
  before 2000 is 1 and the earliest film over $1.5bn is \<open>A (1995)\<close>.
\<close>

theorem films_end_to_end_example:
  "count2BillionMoviesBefore2000
     (cleanFilmsData
        [[(''title'', ''A''), (''revenue'', ''$2,500,000,000''), (''year'', ''1995''),
          (''rank'', ''1''), (''peak'', ''1'')],
         [(''title'', ''B''), (''revenue'', ''$1,600,000,000''), (''year'', ''2001''),
          (''rank'', ''2''), (''peak'', ''3'')]]) = 1 \<and>
   findEarliest1_5BillionFilm
     (cleanFilmsData
        [[(''title'', ''A''), (''revenue'', ''$2,500,000,000''), (''year'', ''1995''),
          (''rank'', ''1''), (''peak'', ''1'')],
         [(''title'', ''B''), (''revenue'', ''$1,600,000,000''), (''year'', ''2001''),
          (''rank'', ''2''), (''peak'', ''3'')]]) = ''A (1995)''"
proof -
  let ?a = "[(''title'', ''A''), (''revenue'', ''$2,500,000,000''), (''year'', ''1995''),
          (''rank'', ''1''), (''peak'', ''1'')]"
  let ?b = "[(''title'', ''B''), (''revenue'', ''$1,600,000,000''), (''year'', ''2001''),
          (''rank'', ''2''), (''peak'', ''3'')]"
  have ta: "titleValue ?a = Some ''A''" by code_simp
  have tb: "titleValue ?b = Some ''B''" by code_simp
  have ma: "revenueMatch ?a = Some ''2,500,000,000''" by code_simp
  have mb: "revenueMatch ?b = Some ''1,600,000,000''" by code_simp
  have ya: "yearValue ?a = Some 1995" by code_simp
  have yb: "yearValue ?b = Some 2001" by code_simp
  have ra: "rankMatch ?a = Some ''1''" by code_simp
  have rb: "rankMatch ?b = Some ''2''" by code_simp
  have pa: "peakMatch ?a = Some ''1''" by code_simp
  have pb: "peakMatch ?b = Some ''3''" by code_simp
  have va: "revenueValue ?a = Some (Fin 2500000000)"
    by (simp add: revenueValue_def ma parseInt_def nat_of_digits_def digit_values)
  have vb: "revenueValue ?b = Some (Fin 1600000000)"
    by (simp add: revenueValue_def mb parseInt_def nat_of_digits_def digit_values)
  have rka: "rankValue ?a = Some (Fin 1)"
    by (simp add: rankValue_def ra parseInt_def nat_of_digits_def digit_values)
  have rkb: "rankValue ?b = Some (Fin 2)"
    by (simp add: rankValue_def rb parseInt_def nat_of_digits_def digit_values)
  have pka: "peakValue ?a = Some (Fin 1)"
    by (simp add: peakValue_def pa parseInt_def nat_of_digits_def digit_values)
  have pkb: "peakValue ?b = Some (Fin 3)"
    by (simp add: peakValue_def pb parseInt_def nat_of_digits_def digit_values)
  have ca: "cleanRow 0 ?a =
      Some \<lparr>title = ''A'', revenue = Fin 2500000000, year = Some 1995, rank = Fin 1, peak = Fin 1\<rparr>"
    by (simp add: cleanRow_def ta va ya rka pka truthy_opt_def truthy_str_def or_else_def)
  have cb: "cleanRow (Suc 0) ?b =
      Some \<lparr>title = ''B'', revenue = Fin 1600000000, year = Some 2001, rank = Fin 2, peak = Fin 3\<rparr>"
    by (simp add: cleanRow_def tb vb yb rkb pkb truthy_opt_def truthy_str_def or_else_def)
  have c: "cleanFilmsData [?a, ?b] =
        [\<lparr>title = ''A'', revenue = Fin 2500000000, year = Some 1995, rank = Fin 1, peak = Fin 1\<rparr>,
         \<lparr>title = ''B'', revenue = Fin 1600000000, year = Some 2001, rank = Fin 2, peak = Fin 3\<rparr>]"
    by (simp add: cleanFilmsData_def ca cb)
  have d: "digits_of_nat 1995 = ''1995''" by code_simp
  have n: "count2BillionMoviesBefore2000
        [\<lparr>title = ''A'', revenue = Fin 2500000000, year = Some 1995, rank = Fin 1, peak = Fin 1\<rparr>,
         \<lparr>title = ''B'', revenue = Fin 1600000000, year = Some 2001, rank = Fin 2, peak = Fin 3\<rparr>] = 1"
    by (simp add: count2BillionMoviesBefore2000_def jge_def jle_def year_truthy_def year_num_def)
  have e: "findEarliest1_5BillionFilm
        [\<lparr>title = ''A'', revenue = Fin 2500000000, year = Some 1995, rank = Fin 1, peak = Fin 1\<rparr>,
         \<lparr>title = ''B'', revenue = Fin 1600000000, year = Some 2001, rank = Fin 2, peak = Fin 3\<rparr>]
        = ''A (1995)''"
    by (simp add: findEarliest1_5BillionFilm_def over1_5bn_def
        reduce1_def earlier_def jge_def jle_def year_truthy_def year_num_def year_text_def d)
  show ?thesis
    unfolding c using n e by simp
qed

end
